theory Spec2Isabelle
  imports Complex_Main "HOL-Library.Word" "HOL-Library.Numeral_Type"
begin

unbundle bit_operations_syntax

section \<open>Python values, exceptions and arithmetic\<close>

text \<open>
  The functions of \<^verbatim>\<open>curvemult2.py\<close>, \<^verbatim>\<open>curvegroup2.py\<close> and \<^verbatim>\<open>dsa.py\<close> compute on
  Python's unbounded integers (HOL's \<open>int\<close>; \<open>div\<close> and \<open>mod\<close> on \<open>int\<close> round towards
  minus infinity, as \<^verbatim>\<open>//\<close> and \<^verbatim>\<open>%\<close> do), on tuples and on lists. A raised exception is
  the left injection of a sum; every exception below is an instance of Python's
  \<^verbatim>\<open>Exception\<close>, which is what \<^verbatim>\<open>except Exception\<close> catches. A \<^verbatim>\<open>while\<close> loop that may
  run forever is a partial function into \<open>option\<close>, where \<open>None\<close> means that the loop
  does not return.
\<close>

datatype exn = ValueError | AssertionError | IndexError | OverflowError | ZeroDivisionError

type_synonym JacPoint = "int \<times> int \<times> int"
type_synonym Point = "int \<times> int"
type_synonym bytes = "8 word list"

definition getitem :: "'a list \<Rightarrow> int \<Rightarrow> exn + 'a" where
  \<comment> \<open>\<^verbatim>\<open>xs[i]\<close>: a negative index counts from the end, an index out of range raises.\<close>
  "getitem xs i =
     (if 0 \<le> i \<and> i < int (length xs) then Inr (xs ! nat i)
      else if i < 0 \<and> - int (length xs) \<le> i then Inr (xs ! nat (int (length xs) + i))
      else Inl IndexError)"

definition range_py :: "int \<Rightarrow> int \<Rightarrow> int list" where
  \<comment> \<open>\<^verbatim>\<open>range(a, b)\<close>\<close>
  "range_py a b = [a..b - 1]"

fun bit_length :: "nat \<Rightarrow> nat" where
  "bit_length n = (if n = 0 then 0 else Suc (bit_length (n div 2)))"

declare bit_length.simps [simp del]

definition round53 :: "int \<Rightarrow> int" where
  \<comment> \<open>The integer nearest to \<open>a\<close> among those with at most 53 significant bits, ties to
      the even significand: the value of the binary64 float nearest to \<open>a\<close>.\<close>
  "round53 a =
     (let L = bit_length (nat \<bar>a\<bar>) in
      if L \<le> 53 then a
      else
        let sh = L - 53;
            q = \<bar>a\<bar> div 2 ^ sh;
            r = \<bar>a\<bar> mod 2 ^ sh;
            q' = (if 2 * r > 2 ^ sh \<or> (2 * r = 2 ^ sh \<and> odd q) then q + 1 else q)
        in sgn a * q' * 2 ^ sh)"

definition truediv2 :: "int \<Rightarrow> exn + rat" where
  \<comment> \<open>\<^verbatim>\<open>a / 2\<close> on an int \<open>a\<close>: Python's true division returns the binary64 float nearest
      to the quotient, and raises OverflowError when that is beyond the largest float.
      Halving only changes the exponent, so the result is \<open>round53 a / 2\<close>.\<close>
  "truediv2 a =
     (if 2 ^ 1025 \<le> \<bar>round53 a\<bar> then Inl OverflowError
      else Inr (of_int (round53 a) / 2))"

function bin_digits :: "int \<Rightarrow> int list" where
  \<comment> \<open>\<^verbatim>\<open>[int(i) for i in bin(m)[2:]]\<close> for \<open>m \<ge> 0\<close>: the binary digits of \<open>m\<close>, most
      significant first, \<open>[0]\<close> for \<open>0\<close>. Every caller has rejected \<open>m < 0\<close> before.\<close>
  "bin_digits m = (if m < 2 then [m] else bin_digits (m div 2) @ [m mod 2])"
  by pat_completeness auto
termination
  by (relation "measure nat") auto

declare bin_digits.simps [simp del]

section \<open>The curve group (collaborator)\<close>

text \<open>
  \<^verbatim>\<open>CurveGroup\<close> (module \<^verbatim>\<open>curvegroup\<close>) and the constant \<^verbatim>\<open>INFJ\<close> (module \<^verbatim>\<open>alias\<close>) are
  not among the sources: the point operations the multipliers call are the fields of a
  record, and the multipliers are verified for every curve group that satisfies the
  contract \<open>curve_group\<close> below.
\<close>

record CurveGroup =
  INFJ :: JacPoint
  add_jac :: "JacPoint \<Rightarrow> JacPoint \<Rightarrow> JacPoint"
  double_jac :: "JacPoint \<Rightarrow> JacPoint"
  negate_jac :: "JacPoint \<Rightarrow> JacPoint"
  aff_from_jac :: "JacPoint \<Rightarrow> exn + Point"

text \<open>
  \<^verbatim>\<open>Curve\<close> extends \<^verbatim>\<open>CurveGroup\<close> with the constants \<^verbatim>\<open>ec._p\<close>, \<^verbatim>\<open>ec.n\<close>, \<^verbatim>\<open>ec.h\<close>, \<^verbatim>\<open>ec.GJ\<close>
  and the method \<^verbatim>\<open>ec.y_odd\<close>. The functions that \<^verbatim>\<open>dsa.py\<close> imports from modules that
  are not among the sources (\<^verbatim>\<open>curvemult\<close>, \<^verbatim>\<open>numbertheory\<close>, \<^verbatim>\<open>utils\<close>, \<^verbatim>\<open>to_pubkey\<close>,
  \<^verbatim>\<open>der\<close>, \<^verbatim>\<open>rfc6979\<close>) are further fields of the record, each already applied to the
  curve. Any of them may raise. The moduli \<open>ec_p\<close> and \<open>ec_n\<close> of a curve are positive,
  so that \<^verbatim>\<open>%\<close> never divides by zero. The type \<open>'k\<close> is the type of public-key inputs.
\<close>

record 'k Curve = CurveGroup +
  ec_p :: int
  ec_n :: int
  ec_h :: int
  GJ :: JacPoint
  y_odd :: "int \<Rightarrow> int \<Rightarrow> exn + int"
  mult_jac :: "int \<Rightarrow> JacPoint \<Rightarrow> exn + JacPoint"
  double_mult :: "int \<Rightarrow> JacPoint \<Rightarrow> int \<Rightarrow> JacPoint \<Rightarrow> exn + JacPoint"
  mod_inv :: "int \<Rightarrow> int \<Rightarrow> exn + int"
  int_from_bits :: "bytes \<Rightarrow> exn + int"
  rfc6979 :: "int \<Rightarrow> int \<Rightarrow> (bytes \<Rightarrow> exn + bytes) \<Rightarrow> exn + int"
  to_pub_tuple :: "'k \<Rightarrow> exn + Point"
  der_deserialize :: "bytes \<Rightarrow> exn + int \<times> int \<times> int"

section \<open>curvemult2.py\<close>

subsection \<open>Montgomery ladder\<close>

fun ladder_loop :: "'c CurveGroup_scheme \<Rightarrow> int list \<Rightarrow> JacPoint \<times> JacPoint \<Rightarrow> JacPoint \<times> JacPoint" where
  "ladder_loop ec [] (R, Q) = (R, Q)"
| "ladder_loop ec (b # bs) (R, Q) =
     (if b = 0 then
        (let Q' = add_jac ec R Q; R' = add_jac ec R R in ladder_loop ec bs (R', Q'))
      else
        (let R' = add_jac ec R Q; Q' = add_jac ec Q Q in ladder_loop ec bs (R', Q')))"

definition mult_jac_mont_ladder :: "int \<Rightarrow> JacPoint \<Rightarrow> 'c CurveGroup_scheme \<Rightarrow> exn + JacPoint" where
  "mult_jac_mont_ladder m Q ec =
     (if m < 0 then Inl ValueError
      else if Q = INFJ ec then Inr Q
      else Inr (fst (ladder_loop ec (bin_digits m) (INFJ ec, Q))))"

subsection \<open>Digits in a base\<close>

partial_function (option) numberToBase_loop :: "int \<Rightarrow> int \<Rightarrow> int list \<Rightarrow> (exn + int list) option" where
  "numberToBase_loop n b digits =
     (if n \<noteq> 0 then
        (if b = 0 then Some (Inl ZeroDivisionError)
         else numberToBase_loop (n div b) b (digits @ [n mod b]))
      else Some (Inr digits))"

declare numberToBase_loop.simps [code]

definition numberToBase :: "int \<Rightarrow> int \<Rightarrow> (exn + int list) option" where
  "numberToBase n b =
     (if n = 0 then Some (Inr [0])
      else (case numberToBase_loop n b [] of
              None \<Rightarrow> None
            | Some (Inl e) \<Rightarrow> Some (Inl e)
            | Some (Inr digits) \<Rightarrow> Some (Inr (rev digits))))"

subsection \<open>Precomputed tables\<close>

fun table_loop :: "(JacPoint \<Rightarrow> JacPoint \<Rightarrow> JacPoint) \<Rightarrow> JacPoint \<Rightarrow> int list \<Rightarrow> JacPoint list
    \<Rightarrow> exn + JacPoint list" where
  \<comment> \<open>\<^verbatim>\<open>for i in ...: T.append(ec._add_jac(T[i - 1], Q))\<close>\<close>
  "table_loop add Q [] T = Inr T"
| "table_loop add Q (i # is) T =
     (case getitem T (i - 1) of
        Inl e \<Rightarrow> Inl e
      | Inr P \<Rightarrow> table_loop add Q is (T @ [add P Q]))"

subsection \<open>Base 3\<close>

fun base_3_loop :: "'c CurveGroup_scheme \<Rightarrow> JacPoint list \<Rightarrow> int list \<Rightarrow> int list \<Rightarrow> JacPoint
    \<Rightarrow> exn + JacPoint" where
  "base_3_loop ec T M [] R = Inr R"
| "base_3_loop ec T M (i # is) R =
     (let R2 = add_jac ec R R;
          R' = add_jac ec R2 R
      in case getitem M i of
           Inl e \<Rightarrow> Inl e
         | Inr d \<Rightarrow>
             (case getitem T d of
                Inl e \<Rightarrow> Inl e
              | Inr P \<Rightarrow> base_3_loop ec T M is (add_jac ec R' P)))"

definition mult_jac_base_3 :: "int \<Rightarrow> JacPoint \<Rightarrow> 'c CurveGroup_scheme \<Rightarrow> (exn + JacPoint) option" where
  "mult_jac_base_3 m Q ec =
     (if m < 0 then Some (Inl ValueError)
      else if Q = INFJ ec then Some (Inr Q)
      else
        (case table_loop (add_jac ec) Q (range_py 1 3) [INFJ ec] of
           Inl e \<Rightarrow> Some (Inl e)
         | Inr T \<Rightarrow>
             (case numberToBase m 3 of
                None \<Rightarrow> None
              | Some (Inl e) \<Rightarrow> Some (Inl e)
              | Some (Inr M) \<Rightarrow>
                  (case getitem M 0 of
                     Inl e \<Rightarrow> Some (Inl e)
                   | Inr d \<Rightarrow>
                       (case getitem T d of
                          Inl e \<Rightarrow> Some (Inl e)
                        | Inr R \<Rightarrow> Some (base_3_loop ec T M (range_py 1 (int (length M))) R))))))"

subsection \<open>Fixed window\<close>

fun fixed_window_loop :: "'c CurveGroup_scheme \<Rightarrow> int \<Rightarrow> JacPoint list \<Rightarrow> int list \<Rightarrow> int list
    \<Rightarrow> JacPoint \<Rightarrow> exn + JacPoint" where
  "fixed_window_loop ec w T M [] R = Inr R"
| "fixed_window_loop ec w T M (i # is) R =
     (let R' = ((\<lambda>R. add_jac ec R R) ^^ nat w) R
      in case getitem M i of
           Inl e \<Rightarrow> Inl e
         | Inr d \<Rightarrow>
             (case getitem T d of
                Inl e \<Rightarrow> Inl e
              | Inr P \<Rightarrow> fixed_window_loop ec w T M is (add_jac ec R' P)))"

definition mult_jac_fixed_window :: "int \<Rightarrow> int \<Rightarrow> JacPoint \<Rightarrow> 'c CurveGroup_scheme
    \<Rightarrow> (exn + JacPoint) option" where
  "mult_jac_fixed_window m w Q ec =
     (if m < 0 then Some (Inl ValueError)
      else if Q = INFJ ec then Some (Inr Q)
      else if w \<le> 0 then Some (Inl ValueError)
      else
        (let b = 2 ^ nat w
         in case table_loop (add_jac ec) Q (range_py 1 b) [INFJ ec] of
              Inl e \<Rightarrow> Some (Inl e)
            | Inr T \<Rightarrow>
                (case numberToBase m b of
                   None \<Rightarrow> None
                 | Some (Inl e) \<Rightarrow> Some (Inl e)
                 | Some (Inr M) \<Rightarrow>
                     (case getitem M 0 of
                        Inl e \<Rightarrow> Some (Inl e)
                      | Inr d \<Rightarrow>
                          (case getitem T d of
                             Inl e \<Rightarrow> Some (Inl e)
                           | Inr R \<Rightarrow>
                               Some (fixed_window_loop ec w T M (range_py 1 (int (length M))) R))))))"

section \<open>curvegroup2.py\<close>

definition mods :: "int \<Rightarrow> int \<Rightarrow> exn + int" where
  \<comment> \<open>Only called with \<open>w > 0\<close>. The bound \<^verbatim>\<open>w2 / 2\<close> is a float.\<close>
  "mods m w =
     (let w2 = 2 ^ nat w;
          M = m mod w2
      in case truediv2 w2 of
           Inl e \<Rightarrow> Inl e
         | Inr half \<Rightarrow> Inr (if of_int M \<ge> half then M - w2 else M))"

subsection \<open>Sliding window\<close>

partial_function (option) convert_loop :: "int \<Rightarrow> int \<Rightarrow> int list \<Rightarrow> (exn + int list) option" where
  "convert_loop i base digits =
     (if i \<noteq> 0 \<or> digits = [] then
        (if base = 0 then Some (Inl ZeroDivisionError)
         else convert_loop (i div base) base (digits @ [i mod base]))
      else Some (Inr digits))"

declare convert_loop.simps [code]

definition convert_number_to_base :: "int \<Rightarrow> int \<Rightarrow> (exn + int list) option" where
  \<comment> \<open>Modelled from the spec: \<^verbatim>\<open>curvegroup.convert_number_to_base\<close> is not among the
      sources. The digit sequence of the scalar in the radix, most significant digit
      first, one digit \<open>0\<close> for the scalar \<open>0\<close>, as \<open>numberToBase\<close> above.\<close>
  "convert_number_to_base i base =
     (case convert_loop i base [] of
        None \<Rightarrow> None
      | Some (Inl e) \<Rightarrow> Some (Inl e)
      | Some (Inr digits) \<Rightarrow> Some (Inr (rev digits)))"

fun window_value :: "int list \<Rightarrow> int \<Rightarrow> int list \<Rightarrow> int \<Rightarrow> exn + int" where
  \<comment> \<open>\<^verbatim>\<open>for a in range(1, j): t = 2 * t + digits[i + a]\<close>\<close>
  "window_value digits i [] t = Inr t"
| "window_value digits i (a # as) t =
     (case getitem digits (i + a) of
        Inl e \<Rightarrow> Inl e
      | Inr d \<Rightarrow> window_value digits i as (2 * t + d))"

fun short_window :: "'c CurveGroup_scheme \<Rightarrow> JacPoint \<Rightarrow> int list \<Rightarrow> int list \<Rightarrow> JacPoint
    \<Rightarrow> exn + JacPoint" where
  \<comment> \<open>\<^verbatim>\<open>for b in range(i, i + j): R = double(R); if digits[b] == 1: R = add(R, Q)\<close>\<close>
  "short_window ec Q digits [] R = Inr R"
| "short_window ec Q digits (b # bs) R =
     (let R' = double_jac ec R
      in case getitem digits b of
           Inl e \<Rightarrow> Inl e
         | Inr d \<Rightarrow> short_window ec Q digits bs (if d = 1 then add_jac ec R' Q else R'))"

datatype step = Return JacPoint | Continue int JacPoint

definition sliding_step :: "'c CurveGroup_scheme \<Rightarrow> int \<Rightarrow> int \<Rightarrow> JacPoint \<Rightarrow> JacPoint list
    \<Rightarrow> int list \<Rightarrow> int \<Rightarrow> JacPoint \<Rightarrow> exn + step" where
  \<comment> \<open>One turn of the \<^verbatim>\<open>while i < len(digits)\<close> loop of \<^verbatim>\<open>_mult_sliding_window\<close>.\<close>
  "sliding_step ec w p Q T digits i R =
     (case getitem digits i of
        Inl e \<Rightarrow> Inl e
      | Inr d \<Rightarrow>
          if d = 0 then Inr (Continue (i + 1) (double_jac ec R))
          else
            (let len = int (length digits);
                 j = (if len - i < w then len - i else w)
             in case window_value digits i (range_py 1 j) d of
                  Inl e \<Rightarrow> Inl e
                | Inr t \<Rightarrow>
                    if j < w then
                      (case short_window ec Q digits (range_py i (i + j)) R of
                         Inl e \<Rightarrow> Inl e
                       | Inr R' \<Rightarrow> Inr (Return R'))
                    else
                      (let R' = (double_jac ec ^^ nat w) R
                       in case getitem T (t - p) of
                            Inl e \<Rightarrow> Inl e
                          | Inr P \<Rightarrow> Inr (Continue (i + j) (add_jac ec R' P)))))"

partial_function (option) sliding_loop :: "'c CurveGroup_scheme \<Rightarrow> int \<Rightarrow> int \<Rightarrow> JacPoint
    \<Rightarrow> JacPoint list \<Rightarrow> int list \<Rightarrow> int \<Rightarrow> JacPoint \<Rightarrow> (exn + JacPoint) option" where
  "sliding_loop ec w p Q T digits i R =
     (if i < int (length digits) then
        (case sliding_step ec w p Q T digits i R of
           Inl e \<Rightarrow> Some (Inl e)
         | Inr (Return R') \<Rightarrow> Some (Inr R')
         | Inr (Continue i' R') \<Rightarrow> sliding_loop ec w p Q T digits i' R')
      else Some (Inr R))"

declare sliding_loop.simps [code]

definition mult_sliding_window :: "int \<Rightarrow> JacPoint \<Rightarrow> 'c CurveGroup_scheme \<Rightarrow> int
    \<Rightarrow> (exn + JacPoint) option" where
  "mult_sliding_window m Q ec w =
     (if m < 0 then Some (Inl ValueError)
      else if w \<le> 0 then Some (Inl ValueError)
      else
        (let k = w - 1;
             p = 2 ^ nat k;
             P = (double_jac ec ^^ nat k) Q
         in case table_loop (add_jac ec) Q (range_py 1 p) [P] of
              Inl e \<Rightarrow> Some (Inl e)
            | Inr T \<Rightarrow>
                (case convert_number_to_base m 2 of
                   None \<Rightarrow> None
                 | Some (Inl e) \<Rightarrow> Some (Inl e)
                 | Some (Inr digits) \<Rightarrow> sliding_loop ec w p Q T digits 0 (INFJ ec))))"

subsection \<open>wNAF\<close>

partial_function (option) naf_loop :: "int \<Rightarrow> int \<Rightarrow> int list \<Rightarrow> (exn + int list) option" where
  \<comment> \<open>The \<^verbatim>\<open>while m > 0\<close> loop of \<^verbatim>\<open>_mult_w_NAF\<close>; the counter \<^verbatim>\<open>i\<close> is the index of the
      digit just appended, and ends as the length of \<^verbatim>\<open>M\<close>.\<close>
  "naf_loop w m M =
     (if m > 0 then
        (if m mod 2 = 1 then
           (case mods m w of
              Inl e \<Rightarrow> Some (Inl e)
            | Inr d \<Rightarrow> naf_loop w ((m - d) div 2) (M @ [d]))
         else naf_loop w (m div 2) (M @ [0]))
      else Some (Inr M))"

declare naf_loop.simps [code]

fun negate_loop :: "(JacPoint \<Rightarrow> JacPoint) \<Rightarrow> int \<Rightarrow> int list \<Rightarrow> JacPoint list \<Rightarrow> exn + JacPoint list" where
  \<comment> \<open>\<^verbatim>\<open>for i in range(b // 2, b): T.append(ec.negate_jac(T[i - (b // 2)]))\<close>\<close>
  "negate_loop neg h [] T = Inr T"
| "negate_loop neg h (i # is) T =
     (case getitem T (i - h) of
        Inl e \<Rightarrow> Inl e
      | Inr P \<Rightarrow> negate_loop neg h is (T @ [neg P]))"

fun naf_add_loop :: "'c CurveGroup_scheme \<Rightarrow> int \<Rightarrow> JacPoint list \<Rightarrow> int list \<Rightarrow> int list
    \<Rightarrow> JacPoint \<Rightarrow> exn + JacPoint" where
  \<comment> \<open>\<^verbatim>\<open>for j in range(p - 1, -1, -1)\<close>, over the list of these indices.\<close>
  "naf_add_loop ec b T M [] R = Inr R"
| "naf_add_loop ec b T M (j # js) R =
     (let R' = double_jac ec R
      in case getitem M j of
           Inl e \<Rightarrow> Inl e
         | Inr d \<Rightarrow>
             if d \<noteq> 0 then
               (case getitem T (if d > 0 then (d - 1) div 2 else (b div 2) - ((d + 1) div 2)) of
                  Inl e \<Rightarrow> Inl e
                | Inr P \<Rightarrow> naf_add_loop ec b T M js (add_jac ec R' P))
             else naf_add_loop ec b T M js R')"

definition mult_w_NAF :: "int \<Rightarrow> JacPoint \<Rightarrow> 'c CurveGroup_scheme \<Rightarrow> int
    \<Rightarrow> (exn + JacPoint) option" where
  "mult_w_NAF m Q ec w =
     (if m < 0 then Some (Inl ValueError)
      else if w \<le> 0 then Some (Inl ValueError)
      else if m = 0 then Some (Inr (INFJ ec))
      else
        (case naf_loop w m [] of
           None \<Rightarrow> None
         | Some (Inl e) \<Rightarrow> Some (Inl e)
         | Some (Inr M) \<Rightarrow>
             (let p = int (length M);
                  b = 2 ^ nat w;
                  Q2 = double_jac ec Q
              in case table_loop (add_jac ec) Q2 (range_py 1 (b div 2)) [Q] of
                   Inl e \<Rightarrow> Some (Inl e)
                 | Inr T0 \<Rightarrow>
                     (case negate_loop (negate_jac ec) (b div 2) (range_py (b div 2) b) T0 of
                        Inl e \<Rightarrow> Some (Inl e)
                      | Inr T \<Rightarrow>
                          Some (naf_add_loop ec b T M (rev (range_py 0 p)) (INFJ ec))))))"

section \<open>dsa.py\<close>

datatype String = Str string | Bytes bytes

datatype DSASig = SigTuple int int | SigDER bytes

definition encode :: "String \<Rightarrow> bytes" where
  \<comment> \<open>\<^verbatim>\<open>if isinstance(msg, str): msg = msg.encode()\<close>; the characters of a HOL string
      are bytes already.\<close>
  "encode msg = (case msg of Str s \<Rightarrow> map (\<lambda>c. of_nat (of_char c)) s | Bytes b \<Rightarrow> b)"

definition int_from_prvkey :: "int \<Rightarrow> 'k Curve \<Rightarrow> exn + int" where
  \<comment> \<open>Modelled from the spec: \<^verbatim>\<open>utils.int_from_prvkey\<close> is not among the sources. The
      private key must be a scalar in \<open>[1, n - 1]\<close>, and the call fails otherwise.\<close>
  "int_from_prvkey q ec = (if 0 < q \<and> q < ec_n ec then Inr q else Inl ValueError)"

definition challenge :: "bytes \<Rightarrow> 'k Curve \<Rightarrow> (bytes \<Rightarrow> exn + bytes) \<Rightarrow> exn + int" where
  "challenge msg ec hf =
     (case hf msg of
        Inl e \<Rightarrow> Inl e
      | Inr mhd \<Rightarrow> int_from_bits ec mhd)"

definition priv_sign :: "int \<Rightarrow> int \<Rightarrow> int \<Rightarrow> 'k Curve \<Rightarrow> exn + int \<times> int" where
  "priv_sign c q k ec =
     (case mult_jac ec k (GJ ec) of
        Inl e \<Rightarrow> Inl e
      | Inr RJ \<Rightarrow>
          (case mod_inv ec (snd (snd RJ) * snd (snd RJ)) (ec_p ec) of
             Inl e \<Rightarrow> Inl e
           | Inr zi \<Rightarrow>
               (let Rx = (fst RJ * zi) mod ec_p ec;
                    r = Rx mod ec_n ec
                in if r = 0 then Inl ValueError
                   else
                     (case mod_inv ec k (ec_n ec) of
                        Inl e \<Rightarrow> Inl e
                      | Inr ki \<Rightarrow>
                          (let s = (ki * (c + r * q)) mod ec_n ec
                           in if s = 0 then Inl ValueError
                              else
                                (case truediv2 (ec_n ec) of
                                   Inl e \<Rightarrow> Inl e
                                 | Inr half \<Rightarrow>
                                     Inr (r, if of_int s > half then ec_n ec - s else s)))))))"

definition sign :: "String \<Rightarrow> int \<Rightarrow> int option \<Rightarrow> 'k Curve \<Rightarrow> (bytes \<Rightarrow> exn + bytes)
    \<Rightarrow> exn + int \<times> int" where
  "sign msg q k ec hf =
     (case challenge (encode msg) ec hf of
        Inl e \<Rightarrow> Inl e
      | Inr c \<Rightarrow>
          (case int_from_prvkey q ec of
             Inl e \<Rightarrow> Inl e
           | Inr d \<Rightarrow>
               (case (case k of None \<Rightarrow> rfc6979 ec c d hf | Some k' \<Rightarrow> Inr k') of
                  Inl e \<Rightarrow> Inl e
                | Inr k' \<Rightarrow>
                    if \<not> (0 < k' \<and> k' < ec_n ec) then Inl ValueError
                    else priv_sign c d k' ec)))"

definition check_sig :: "int \<Rightarrow> int \<Rightarrow> 'k Curve \<Rightarrow> exn + unit" where
  "check_sig r s ec =
     (if \<not> (0 < r \<and> r < ec_n ec) then Inl ValueError
      else if \<not> (0 < s \<and> s < ec_n ec) then Inl ValueError
      else Inr ())"

definition verhlp :: "int \<Rightarrow> JacPoint \<Rightarrow> int \<Rightarrow> int \<Rightarrow> 'k Curve \<Rightarrow> exn + unit" where
  "verhlp c PJ r s ec =
     (if snd (snd PJ) = 0 then Inl ValueError
      else
        (case mod_inv ec s (ec_n ec) of
           Inl e \<Rightarrow> Inl e
         | Inr w \<Rightarrow>
             (let u = c * w;
                  v = r * w
              in case double_mult ec v PJ u (GJ ec) of
                   Inl e \<Rightarrow> Inl e
                 | Inr RJ \<Rightarrow>
                     if \<not> snd (snd RJ) \<noteq> 0 then Inl AssertionError
                     else
                       (case mod_inv ec (snd (snd RJ) * snd (snd RJ)) (ec_p ec) of
                          Inl e \<Rightarrow> Inl e
                        | Inr zi \<Rightarrow>
                            (let Rx = (fst RJ * zi) mod ec_p ec;
                                 x = Rx mod ec_n ec
                             in if \<not> r = x then Inl AssertionError else Inr ())))))"

definition read_sig :: "DSASig \<Rightarrow> 'k Curve \<Rightarrow> exn + int \<times> int" where
  \<comment> \<open>The \<^verbatim>\<open>if isinstance(sig, tuple): ... else: ...\<close> block shared by \<^verbatim>\<open>_verify\<close> and
      \<^verbatim>\<open>recover_pubkeys\<close>.\<close>
  "read_sig sig ec =
     (case sig of
        SigTuple r s \<Rightarrow>
          (case check_sig r s ec of Inl e \<Rightarrow> Inl e | Inr u \<Rightarrow> Inr (r, s))
      | SigDER b \<Rightarrow>
          (case der_deserialize ec b of Inl e \<Rightarrow> Inl e | Inr (r, s, sighash) \<Rightarrow> Inr (r, s)))"

definition priv_verify :: "String \<Rightarrow> 'k \<Rightarrow> DSASig \<Rightarrow> 'k Curve \<Rightarrow> (bytes \<Rightarrow> exn + bytes) \<Rightarrow> exn + unit" where
  "priv_verify msg P sig ec hf =
     (case read_sig sig ec of
        Inl e \<Rightarrow> Inl e
      | Inr (r, s) \<Rightarrow>
          (case challenge (encode msg) ec hf of
             Inl e \<Rightarrow> Inl e
           | Inr c \<Rightarrow>
               (case to_pub_tuple ec P of
                  Inl e \<Rightarrow> Inl e
                | Inr P' \<Rightarrow>
                    (let PJ = (fst P', snd P', if snd P' \<noteq> 0 then 1 else 0)
                     in verhlp c PJ r s ec))))"

definition verify :: "String \<Rightarrow> 'k \<Rightarrow> DSASig \<Rightarrow> 'k Curve \<Rightarrow> (bytes \<Rightarrow> exn + bytes) \<Rightarrow> exn + bool" where
  \<comment> \<open>\<^verbatim>\<open>try: _verify(...) except Exception: return False else: return True\<close>. The result is
      a sum so that a raised exception and a returned boolean are different values.\<close>
  "verify msg P sig ec hf =
     (case priv_verify msg P sig ec hf of
        Inl e \<Rightarrow> Inr False
      | Inr u \<Rightarrow> Inr True)"

definition recover_candidates :: "int \<Rightarrow> int \<Rightarrow> int \<Rightarrow> int \<Rightarrow> int \<Rightarrow> 'k Curve \<Rightarrow> int
    \<Rightarrow> JacPoint list \<Rightarrow> JacPoint list" where
  \<comment> \<open>The body of \<^verbatim>\<open>for j in range(ec.h)\<close> in \<^verbatim>\<open>_recover_pubkeys\<close>. The inner handlers
      skip a candidate that does not verify; the outer handler ends the turn at any
      other exception, and keeps what was appended before.\<close>
  "recover_candidates c r s r1s r1e ec j keys =
     (let x = (r + j * ec_n ec) mod ec_p ec
      in case y_odd ec x 0 of
           Inl e \<Rightarrow> keys
         | Inr yodd \<Rightarrow>
             (case double_mult ec r1s (x, yodd, 1) r1e (GJ ec) of
                Inl e \<Rightarrow> keys
              | Inr Q1J \<Rightarrow>
                  (let keys1 = (case verhlp c Q1J r s ec of Inl e \<Rightarrow> keys | Inr u \<Rightarrow> keys @ [Q1J])
                   in case double_mult ec r1s (x, ec_p ec - yodd, 1) r1e (GJ ec) of
                        Inl e \<Rightarrow> keys1
                      | Inr Q2J \<Rightarrow>
                          (case verhlp c Q2J r s ec of
                             Inl e \<Rightarrow> keys1
                           | Inr u \<Rightarrow> keys1 @ [Q2J]))))"

definition priv_recover_pubkeys :: "int \<Rightarrow> int \<Rightarrow> int \<Rightarrow> 'k Curve \<Rightarrow> exn + JacPoint list" where
  "priv_recover_pubkeys c r s ec =
     (case mod_inv ec r (ec_n ec) of
        Inl e \<Rightarrow> Inl e
      | Inr r1 \<Rightarrow>
          (let r1s = r1 * s;
               r1e = - r1 * c
           in Inr (fold (recover_candidates c r s r1s r1e ec) (range_py 0 (ec_h ec)) [])))"

fun aff_all :: "'c CurveGroup_scheme \<Rightarrow> JacPoint list \<Rightarrow> exn + Point list" where
  \<comment> \<open>\<^verbatim>\<open>[ec._aff_from_jac(QJ) for QJ in QJs]\<close>\<close>
  "aff_all ec [] = Inr []"
| "aff_all ec (QJ # QJs) =
     (case aff_from_jac ec QJ of
        Inl e \<Rightarrow> Inl e
      | Inr Q \<Rightarrow> (case aff_all ec QJs of Inl e \<Rightarrow> Inl e | Inr Qs \<Rightarrow> Inr (Q # Qs)))"

definition recover_pubkeys :: "String \<Rightarrow> DSASig \<Rightarrow> 'k Curve \<Rightarrow> (bytes \<Rightarrow> exn + bytes)
    \<Rightarrow> exn + Point list" where
  "recover_pubkeys msg sig ec hf =
     (case challenge (encode msg) ec hf of
        Inl e \<Rightarrow> Inl e
      | Inr c \<Rightarrow>
          (case read_sig sig ec of
             Inl e \<Rightarrow> Inl e
           | Inr (r, s) \<Rightarrow>
               (case priv_recover_pubkeys c r s ec of
                  Inl e \<Rightarrow> Inl e
                | Inr QJs \<Rightarrow> aff_all ec QJs)))"

definition priv_recover_pubkey :: "int \<Rightarrow> int \<Rightarrow> int \<Rightarrow> int \<Rightarrow> 'k Curve \<Rightarrow> exn + JacPoint option" where
  \<comment> \<open>The result \<open>Inr None\<close> is the returned \<^verbatim>\<open>None\<close>.\<close>
  "priv_recover_pubkey key_id c r s ec =
     (case mod_inv ec r (ec_n ec) of
        Inl e \<Rightarrow> Inl e
      | Inr r1 \<Rightarrow>
          (let r1s = r1 * s;
               r1e = - r1 * c;
               j = key_id AND 6;
               x = (r + j * ec_n ec) mod ec_p ec;
               i = key_id AND 1
           in case y_odd ec x i of
                Inl e \<Rightarrow> Inr None
              | Inr y \<Rightarrow>
                  (case double_mult ec r1s (x, y, 1) r1e (GJ ec) of
                     Inl e \<Rightarrow> Inr None
                   | Inr QJ \<Rightarrow>
                       (case verhlp c QJ r s ec of
                          Inl e \<Rightarrow> Inr None
                        | Inr u \<Rightarrow> Inr (Some QJ)))))"

section \<open>The contract of the collaborators\<close>

text \<open>
  The points of the curve form a commutative group \<open>'g\<close>. A Jacobian triple that
  satisfies the invariant of the data model (\<open>on_curve\<close>: it is an infinity encoding or
  decodes to a point of the curve) denotes the group element \<open>pt\<close> of it, and the
  scalar multiple \<open>[k]g\<close> is \<open>smul k g\<close>.
\<close>

primrec nmul :: "nat \<Rightarrow> 'g::ab_group_add \<Rightarrow> 'g" where
  "nmul 0 g = 0"
| "nmul (Suc k) g = g + nmul k g"

definition smul :: "int \<Rightarrow> 'g::ab_group_add \<Rightarrow> 'g" where
  "smul k g = (if 0 \<le> k then nmul (nat k) g else - nmul (nat (- k)) g)"

definition curve_group :: "'c CurveGroup_scheme \<Rightarrow> (JacPoint \<Rightarrow> bool) \<Rightarrow> (JacPoint \<Rightarrow> 'g::ab_group_add)
    \<Rightarrow> bool" where
  \<comment> \<open>The contract of \<^verbatim>\<open>CurveGroup\<close>: \<^verbatim>\<open>INFJ\<close> is an infinity encoding, \<open>Z = 0\<close> encodes
      infinity, the operations keep the invariant and compute the group operations,
      and the affine conversion depends on the denoted point only.\<close>
  "curve_group ec on_curve pt \<longleftrightarrow>
     on_curve (INFJ ec) \<and> snd (snd (INFJ ec)) = 0 \<and>
     (\<forall>P. on_curve P \<longrightarrow> (pt P = 0 \<longleftrightarrow> snd (snd P) = 0)) \<and>
     (\<forall>P Q. on_curve P \<and> on_curve Q \<longrightarrow>
        on_curve (add_jac ec P Q) \<and> pt (add_jac ec P Q) = pt P + pt Q) \<and>
     (\<forall>P. on_curve P \<longrightarrow> on_curve (double_jac ec P) \<and> pt (double_jac ec P) = pt P + pt P) \<and>
     (\<forall>P. on_curve P \<longrightarrow> on_curve (negate_jac ec P) \<and> pt (negate_jac ec P) = - pt P) \<and>
     (\<forall>P Q. on_curve P \<and> on_curve Q \<and> pt P = pt Q \<longrightarrow> aff_from_jac ec P = aff_from_jac ec Q)"

definition computes :: "(JacPoint \<Rightarrow> bool) \<Rightarrow> (JacPoint \<Rightarrow> 'g::ab_group_add) \<Rightarrow> int \<Rightarrow> JacPoint
    \<Rightarrow> exn + JacPoint \<Rightarrow> bool" where
  \<comment> \<open>The result is a returned Jacobian point equal to \<open>[m]Q\<close>, and infinity if \<open>m = 0\<close>.\<close>
  "computes on_curve pt m Q res \<longleftrightarrow>
     (\<exists>R. res = Inr R \<and> on_curve R \<and> pt R = smul m (pt Q) \<and> (m = 0 \<longrightarrow> snd (snd R) = 0))"

definition dsa_curve :: "'k Curve \<Rightarrow> (JacPoint \<Rightarrow> bool) \<Rightarrow> (JacPoint \<Rightarrow> 'g::ab_group_add)
    \<Rightarrow> ('g \<Rightarrow> int) \<Rightarrow> bool" where
  \<comment> \<open>The contract of \<^verbatim>\<open>Curve\<close> and of the functions \<^verbatim>\<open>dsa.py\<close> imports: the generator has
      order \<open>n > 2\<close>, every scalar in \<open>[1, n - 1]\<close> has an inverse modulo \<open>n\<close> (\<open>n\<close> is
      prime), \<open>X / Z\<^sup>2\<close> is the x-coordinate \<open>xof\<close> of the denoted point, opposite points
      share it, a finite point with \<open>y = 0\<close> is its own opposite, and the single and the
      double scalar multiplication compute \<open>[m]Q\<close> and \<open>[u]H + [v]Q\<close> for scalars that
      are not negative.\<close>
  "dsa_curve ec on_curve pt xof \<longleftrightarrow>
     curve_group ec on_curve pt \<and>
     2 < ec_n ec \<and> 0 < ec_p ec \<and>
     on_curve (GJ ec) \<and>
     (\<forall>k. smul k (pt (GJ ec)) = 0 \<longleftrightarrow> ec_n ec dvd k) \<and>
     (\<forall>a. 0 < a \<and> a < ec_n ec \<longrightarrow>
        (\<exists>b. mod_inv ec a (ec_n ec) = Inr b \<and> (a * b) mod ec_n ec = 1)) \<and>
     (\<forall>P. on_curve P \<and> snd (snd P) \<noteq> 0 \<longrightarrow>
        (\<exists>zi. mod_inv ec (snd (snd P) * snd (snd P)) (ec_p ec) = Inr zi \<and>
              (fst P * zi) mod ec_p ec = xof (pt P))) \<and>
     (\<forall>g. xof (- g) = xof g) \<and>
     (\<forall>x. on_curve (x, 0, 1) \<longrightarrow> pt (x, 0, 1) + pt (x, 0, 1) = 0) \<and>
     (\<forall>m Q. 0 \<le> m \<and> on_curve Q \<longrightarrow>
        (\<exists>R. mult_jac ec m Q = Inr R \<and> on_curve R \<and> pt R = smul m (pt Q))) \<and>
     (\<forall>u H v Q. 0 \<le> u \<and> 0 \<le> v \<and> on_curve H \<and> on_curve Q \<longrightarrow>
        (\<exists>R. double_mult ec u H v Q = Inr R \<and> on_curve R \<and>
             pt R = smul u (pt H) + smul v (pt Q)))"

section \<open>A test curve\<close>

text \<open>
  The curve \<open>y\<^sup>2 = x\<^sup>3 + 7\<close> over the field of 13 elements has 7 points: infinity and
  the six multiples \<open>[1]G, \<dots>, [6]G\<close> of \<open>G = (7, 5)\<close> listed in \<open>ec13_points\<close>. Its group
  operations are computed from this list, with results of \<open>Z = 1\<close>; the group is the
  additive group of the integers modulo 7, the type \<open>7\<close>.
\<close>

definition ec13_points :: "Point list" where
  "ec13_points = [(7, 5), (8, 5), (11, 8), (11, 5), (8, 8), (7, 8)]"

fun index_of :: "'a \<Rightarrow> 'a list \<Rightarrow> nat" where
  "index_of x [] = 0"
| "index_of x (y # ys) = (if x = y then 0 else Suc (index_of x ys))"

definition ec13_index :: "JacPoint \<Rightarrow> nat" where
  \<comment> \<open>The \<open>k\<close> with \<open>P = [k]G\<close>.\<close>
  "ec13_index P =
     (if snd (snd P) = 0 then 0 else Suc (index_of (fst P, fst (snd P)) ec13_points))"

definition ec13_jac :: "nat \<Rightarrow> JacPoint" where
  \<comment> \<open>\<open>[k]G\<close>\<close>
  "ec13_jac k =
     (if k mod 7 = 0 then (7, 0, 0)
      else (fst (ec13_points ! (k mod 7 - 1)), snd (ec13_points ! (k mod 7 - 1)), 1))"

definition ec13_on_curve :: "JacPoint \<Rightarrow> bool" where
  "ec13_on_curve P \<longleftrightarrow>
     snd (snd P) = 0 \<or> (snd (snd P) = 1 \<and> (fst P, fst (snd P)) \<in> set ec13_points)"

definition ec13_pt :: "JacPoint \<Rightarrow> 7" where
  "ec13_pt P = of_nat (ec13_index P)"

definition ec13_xof :: "7 \<Rightarrow> int" where
  "ec13_xof g = fst (ec13_jac (nat (Rep_bit1 g)))"

definition ec13_group :: CurveGroup where
  "ec13_group =
     \<lparr> INFJ = (7, 0, 0),
       add_jac = (\<lambda>P Q. ec13_jac (ec13_index P + ec13_index Q)),
       double_jac = (\<lambda>P. ec13_jac (2 * ec13_index P)),
       negate_jac = (\<lambda>P. ec13_jac (7 - ec13_index P)),
       aff_from_jac = (\<lambda>P. if snd (snd P) = 0 then Inr (7, 0)
                            else Inr (fst (ec13_jac (ec13_index P)), fst (snd (ec13_jac (ec13_index P))))) \<rparr>"

definition euclid_inv :: "int \<Rightarrow> int \<Rightarrow> exn + int" where
  \<comment> \<open>A modular inverse by the extended Euclidean algorithm; it fails when there is none.\<close>
  "euclid_inv a m =
     (if gcd (nat (a mod m)) (nat m) = 1 then Inr (fst (bezw (nat (a mod m)) (nat m)) mod m)
      else Inl ValueError)"

definition ec13 :: "Point Curve" where
  "ec13 =
     \<lparr> INFJ = INFJ ec13_group,
       add_jac = add_jac ec13_group,
       double_jac = double_jac ec13_group,
       negate_jac = negate_jac ec13_group,
       aff_from_jac = aff_from_jac ec13_group,
       ec_p = 13,
       ec_n = 7,
       ec_h = 1,
       GJ = (7, 5, 1),
       y_odd = (\<lambda>x odd.
          (case filter (\<lambda>P. fst P = x \<and> snd P mod 2 = odd mod 2) ec13_points of
             [] \<Rightarrow> Inl ValueError
           | P # Ps \<Rightarrow> Inr (snd P))),
       mult_jac = (\<lambda>m Q. mult_jac_mont_ladder m Q ec13_group),
       double_mult = (\<lambda>u H v Q.
          (case mult_jac_mont_ladder u H ec13_group of
             Inl e \<Rightarrow> Inl e
           | Inr A \<Rightarrow>
               (case mult_jac_mont_ladder v Q ec13_group of
                  Inl e \<Rightarrow> Inl e
                | Inr B \<Rightarrow> Inr (add_jac ec13_group A B)))),
       mod_inv = euclid_inv,
       int_from_bits = (\<lambda>mhd. Inr (foldl (\<lambda>a b. (256 * a + uint b) mod 7) 0 mhd)),
       rfc6979 = (\<lambda>c d hf. Inr (1 + (c + d) mod 6)),
       to_pub_tuple = (\<lambda>P. if P \<in> set ec13_points then Inr P else Inl ValueError),
       der_deserialize = (\<lambda>b.
          (case b of
             [r, s] \<Rightarrow>
               if 0 < uint r \<and> uint r < 7 \<and> 0 < uint s \<and> uint s < 7 then Inr (uint r, uint s, 1)
               else Inl ValueError
           | _ \<Rightarrow> Inl ValueError)) \<rparr>"

definition hf13 :: "bytes \<Rightarrow> exn + bytes" where
  \<comment> \<open>A stand-in for the hash function: the digest is the message.\<close>
  "hf13 msg = Inr msg"

subsection \<open>The constants of secp256k1\<close>

definition secp256k1_p :: int where
  "secp256k1_p = 0xFFFFFFFFFFFFFFFFFFFFFFFFFFFFFFFFFFFFFFFFFFFFFFFFFFFFFFFEFFFFFC2F"

definition secp256k1_n :: int where
  "secp256k1_n = 0xFFFFFFFFFFFFFFFFFFFFFFFFFFFFFFFEBAAEDCE6AF48A03BBFD25E8CD0364141"

definition secp256k1_Gx :: int where
  "secp256k1_Gx = 0x79BE667EF9DCBBAC55A06295CE870B07029BFCDB2DCE28D959F2815B16F81798"

definition secp256k1_Gy :: int where
  "secp256k1_Gy = 0x483ADA7726A3C4655DA4FBFC0E1108A8FD17B448A68554199C47D08FFB10D4B8"

definition secp256k1_stub :: "Point Curve" where
  \<comment> \<open>A curve object with the moduli and the generator of secp256k1. Of its scalar
      multiplication only \<open>[1]Q = Q\<close> is represented.\<close>
  "secp256k1_stub =
     ec13 \<lparr> ec_p := secp256k1_p,
            ec_n := secp256k1_n,
            GJ := (secp256k1_Gx, secp256k1_Gy, 1),
            mult_jac := (\<lambda>m Q. if m = 1 then Inr Q else Inl ValueError) \<rparr>"

section \<open>The spec's reading of the key identifier\<close>

definition recover_pubkey_spec :: "int \<Rightarrow> int \<Rightarrow> int \<Rightarrow> int \<Rightarrow> 'k Curve \<Rightarrow> exn + JacPoint option" where
  \<comment> \<open>Follows the spec's words (section 4.2): bit 0 of \<open>key_id\<close> selects the y-parity and
      the remaining bits, \<open>key_id\<close> shifted right by one, select \<open>j\<close>. Everything else is
      as in \<open>priv_recover_pubkey\<close>, with which it is compared.\<close>
  "recover_pubkey_spec key_id c r s ec =
     (case mod_inv ec r (ec_n ec) of
        Inl e \<Rightarrow> Inl e
      | Inr r1 \<Rightarrow>
          (let r1s = r1 * s;
               r1e = - r1 * c;
               j = drop_bit 1 key_id;
               x = (r + j * ec_n ec) mod ec_p ec;
               i = key_id AND 1
           in case y_odd ec x i of
                Inl e \<Rightarrow> Inr None
              | Inr y \<Rightarrow>
                  (case double_mult ec r1s (x, y, 1) r1e (GJ ec) of
                     Inl e \<Rightarrow> Inr None
                   | Inr QJ \<Rightarrow>
                       (case verhlp c QJ r s ec of
                          Inl e \<Rightarrow> Inr None
                        | Inr u \<Rightarrow> Inr (Some QJ)))))"

section \<open>Rejected scalars and windows\<close>

text \<open>
  C9. Each of the five multipliers on Jacobian points (Montgomery ladder, base 3, fixed
  window, sliding window, wNAF) rejects every negative scalar with an error, for every
  point, curve group and window: the test \<^verbatim>\<open>m < 0\<close> is the first statement of each.
\<close>

theorem negative_scalar_rejected:
  "m < 0 \<Longrightarrow>
     mult_jac_mont_ladder m Q ec = Inl ValueError \<and>
     mult_jac_base_3 m Q ec = Some (Inl ValueError) \<and>
     mult_jac_fixed_window m w1 Q ec = Some (Inl ValueError) \<and>
     mult_sliding_window m Q ec w2 = Some (Inl ValueError) \<and>
     mult_w_NAF m Q ec w3 = Some (Inl ValueError)"
  by (simp add: mult_jac_mont_ladder_def mult_jac_base_3_def mult_jac_fixed_window_def
      mult_sliding_window_def mult_w_NAF_def)

theorem negative_scalar_rejected_witness:
  "(- 1 :: int) < 0 \<and>
   mult_jac_mont_ladder (- 1) (7, 5, 1) ec13_group = Inl ValueError \<and>
   mult_jac_base_3 (- 1) (7, 5, 1) ec13_group = Some (Inl ValueError) \<and>
   mult_jac_fixed_window (- 1) 4 (7, 5, 1) ec13_group = Some (Inl ValueError) \<and>
   mult_sliding_window (- 1) (7, 5, 1) ec13_group 4 = Some (Inl ValueError) \<and>
   mult_w_NAF (- 1) (7, 5, 1) ec13_group 4 = Some (Inl ValueError)"
  using negative_scalar_rejected [of "- 1" "(7, 5, 1)" ec13_group 4 4 4] by simp

lemma truediv2_2: "truediv2 2 = Inr 1"
  by (simp add: truediv2_def round53_def bit_length.simps Let_def)

lemma mods_w1: "m mod 2 = 1 \<Longrightarrow> mods m 1 = Inr (- 1)"
  by (simp add: mods_def truediv2_2 Let_def)

lemma naf_loop_w1:
  assumes "naf_loop w0 m0 M0 = Some y0"
  shows "\<not> (w0 = 1 \<and> 0 < m0)"
proof (rule naf_loop.raw_induct [where P = "\<lambda>w m M y. \<not> (w = 1 \<and> 0 < m)", OF _ assms], goal_cases)
  case (1 f w m M y)
  show ?case
  proof
    assume a: "w = 1 \<and> 0 < m"
    show False
    proof (cases "m mod 2 = 1")
      case True
      with 1(2) a have "f 1 ((m + 1) div 2) (M @ [- 1]) = Some y"
        by (simp add: mods_w1)
      moreover have "0 < (m + 1) div 2" using a by presburger
      ultimately show False using 1(1) by blast
    next
      case False
      with 1(2) a have "f 1 (m div 2) (M @ [0]) = Some y" by simp
      moreover have "0 < m div 2" using False a by presburger
      ultimately show False using 1(1) by blast
    qed
  qed
qed

text \<open>
  C4. \<^verbatim>\<open>_mult_w_NAF\<close> does not reject the window \<open>w = 1\<close>: its only test of the window is
  \<^verbatim>\<open>w <= 0\<close>. For \<open>w = 1\<close> the signed digit of an odd residual is always \<open>- 1\<close>, the
  residual never reaches \<open>0\<close>, and for every scalar \<open>m > 0\<close> the call does not return
  (the docstring of \<^verbatim>\<open>mods\<close> says so).
\<close>

theorem w_NAF_w1_never_returns:
  "0 < m \<Longrightarrow> mult_w_NAF m Q ec 1 = None"
proof -
  assume m: "0 < m"
  have "naf_loop 1 m [] = None"
    using naf_loop_w1 [of 1 m "[]"] m by (cases "naf_loop 1 m []") auto
  then show ?thesis using m by (simp add: mult_w_NAF_def)
qed

theorem w_NAF_w1_never_returns_witness:
  "(0 :: int) < 1 \<and> mult_w_NAF 1 (7, 5, 1) ec13_group 1 = None"
  using w_NAF_w1_never_returns [of 1 "(7, 5, 1)" ec13_group] by simp

section \<open>Verification and recovery at the interface\<close>

lemma ec13_consts:
  "ec_n ec13 = 7" "ec_p ec13 = 13" "ec_h ec13 = 1" "GJ ec13 = (7, 5, 1)"
  "INFJ ec13 = (7, 0, 0)" "mod_inv ec13 = euclid_inv"
  by (simp_all add: ec13_def ec13_group_def)

lemma challenge13: "challenge (encode (Bytes [])) ec13 hf13 = Inr 0"
  by (simp add: challenge_def encode_def hf13_def ec13_def)

text \<open>
  C6. \<^verbatim>\<open>verify\<close> never raises. For every message, public-key input, signature input,
  curve and hash function (whatever the collaborators return or raise) it returns a
  boolean: \<open>True\<close> when the strict verification \<^verbatim>\<open>_verify\<close> returns, and \<open>False\<close> when it
  raises anything.
\<close>

theorem verify_never_raises:
  "verify msg P sig ec hf = Inr (\<not> isl (priv_verify msg P sig ec hf))"
  by (simp add: verify_def split: sum.split)

text \<open>
  C10. If the public key decodes to an affine point with \<open>y = 0\<close>, \<^verbatim>\<open>_verify\<close> builds the
  Jacobian triple with \<open>Z = 0\<close>, \<^verbatim>\<open>_verhlp\<close> raises (unless an earlier step has raised
  already), and \<^verbatim>\<open>verify\<close> returns \<open>False\<close>, for every message and signature.
\<close>

theorem zero_y_pubkey_rejected:
  "to_pub_tuple ec P = Inr (x, 0) \<Longrightarrow> verify msg P sig ec hf = Inr False"
  by (simp add: verify_def priv_verify_def verhlp_def split: sum.split prod.split)

theorem zero_y_pubkey_rejected_witness:
  "to_pub_tuple (ec13\<lparr>to_pub_tuple := Inr\<rparr>) (5, 0) = Inr (5, 0) \<and>
   verify (Str ''test'') (5, 0) (SigTuple 1 2) (ec13\<lparr>to_pub_tuple := Inr\<rparr>) hf13 = Inr False"
  using zero_y_pubkey_rejected
    [of "ec13\<lparr>to_pub_tuple := Inr\<rparr>" "(5, 0)" 5 "Str ''test''" "SigTuple 1 2" hf13]
  by (simp add: ec13_def)

lemma read_sig_out_of_range:
  "r = ec_n ec \<or> s = ec_n ec \<Longrightarrow> read_sig (SigTuple r s) ec = Inl ValueError"
  by (auto simp add: read_sig_def check_sig_def)

text \<open>
  C7, as stated, fails: for a signature \<open>(r, s)\<close> with \<open>r = n\<close>, \<^verbatim>\<open>recover_pubkeys\<close> does
  not return the empty list, it raises the ValueError of \<^verbatim>\<open>_check_sig\<close>, which it calls
  outside of any handler. On the test curve (\<open>n = 7\<close>):
\<close>

theorem recover_pubkeys_raises:
  "recover_pubkeys (Bytes []) (SigTuple 7 2) ec13 hf13 = Inl ValueError"
  by (simp add: recover_pubkeys_def challenge13 read_sig_def check_sig_def ec13_consts)

text \<open>
  C7, amended. For a signature pair with \<open>r = n\<close> or \<open>s = n\<close>, \<^verbatim>\<open>verify\<close> returns \<open>False\<close>
  and \<^verbatim>\<open>recover_pubkeys\<close> raises: the error of the challenge computation (the hash or
  \<^verbatim>\<open>int_from_bits\<close>) if that one fails, and otherwise the range error ValueError of
  \<^verbatim>\<open>_check_sig\<close>. It never returns a list.
\<close>

theorem out_of_range_signature:
  "r = ec_n ec \<or> s = ec_n ec \<Longrightarrow>
     verify msg P (SigTuple r s) ec hf = Inr False \<and>
     recover_pubkeys msg (SigTuple r s) ec hf =
       (case challenge (encode msg) ec hf of
          Inl e \<Rightarrow> Inl e
        | Inr c \<Rightarrow> Inl ValueError)"
  by (simp add: verify_def priv_verify_def recover_pubkeys_def read_sig_out_of_range
      split: sum.split)

theorem out_of_range_signature_witness:
  "(7 = ec_n ec13 \<or> 2 = ec_n ec13) \<and>
   verify (Bytes []) (7, 5) (SigTuple 7 2) ec13 hf13 = Inr False \<and>
   challenge (encode (Bytes [])) ec13 hf13 = Inr 0 \<and>
   recover_pubkeys (Bytes []) (SigTuple 7 2) ec13 hf13 = Inl ValueError"
  using out_of_range_signature [of 7 ec13 2 "Bytes []" "(7, 5)" hf13]
  by (simp add: ec13_consts challenge13)

section \<open>The key identifier of the recovery\<close>

text \<open>
  C8. \<^verbatim>\<open>_recover_pubkey\<close> takes bit 0 of \<open>key_id\<close> as the y-parity, but it takes
  \<^verbatim>\<open>key_id & 0b110\<close> as \<open>j\<close> without shifting it: \<open>key_id = 2\<close> gives \<open>j = 2\<close>, not \<open>1\<close>.
  On the test curve (\<open>p = 13\<close>, \<open>n = 7\<close>) the signature \<open>(1, 2)\<close> of the challenge \<open>0\<close>
  under the private key \<open>3\<close> (nonce \<open>2\<close>, \<open>R = (8, 5)\<close>, \<open>r = 8 mod 7\<close>) needs
  \<open>x = r + n = 8\<close>. The spec's reading recovers the signer's key \<open>[3]G = (11, 8)\<close> for
  \<open>key_id = 2\<close>; the code tries \<open>x = (1 + 2 \<cdot> 7) mod 13 = 2\<close>, which is not on the curve,
  and returns \<^verbatim>\<open>None\<close>.
\<close>

theorem recover_pubkey_key_id_not_shifted:
  "priv_recover_pubkey 2 0 1 2 ec13 = Inr None \<and>
   recover_pubkey_spec 2 0 1 2 ec13 = Inr (Some (11, 8, 1)) \<and>
   priv_sign 0 3 2 ec13 = Inr (1, 2) \<and>
   mult_jac ec13 3 (GJ ec13) = Inr (11, 8, 1)"
  by code_simp

section \<open>The low-s rule\<close>

lemma bit_length_eq: "2 ^ k \<le> n \<Longrightarrow> n < 2 ^ Suc k \<Longrightarrow> bit_length n = Suc k"
proof (induction k arbitrary: n)
  case 0
  then have "n = 1" by simp
  then show ?case by (simp add: bit_length.simps)
next
  case (Suc k)
  have "2 ^ k \<le> n div 2" using Suc.prems(1) by simp
  moreover have "n div 2 < 2 ^ Suc k" using Suc.prems(2) by simp
  ultimately have "bit_length (n div 2) = Suc k" by (rule Suc.IH)
  moreover have "n \<noteq> 0"
  proof
    assume "n = 0"
    with Suc.prems(1) have "(2::nat) ^ Suc k \<le> 0" by simp
    then show False by simp
  qed
  ultimately show ?case by (subst bit_length.simps) simp
qed

lemma bit_length_secp256k1_n: "bit_length (nat \<bar>secp256k1_n\<bar>) = 256"
proof -
  have "bit_length (nat \<bar>secp256k1_n\<bar>) = Suc 255"
    by (rule bit_length_eq) (simp_all add: secp256k1_n_def)
  then show ?thesis by simp
qed

lemma round53_secp256k1_n: "round53 secp256k1_n = 2 ^ 256"
  by (simp add: round53_def bit_length_secp256k1_n Let_def) (simp add: secp256k1_n_def)

lemma no_overflow_256: "\<not> (2::int) ^ 1025 \<le> \<bar>2 ^ 256\<bar>"
proof -
  have "(2::int) ^ 256 < 2 ^ 1025" by (rule power_strict_increasing) simp_all
  then show ?thesis by simp
qed

lemma half_of_2_256: "(of_int (2 ^ 256) / 2 :: rat) = 2 ^ 255"
proof -
  have "(2::rat) ^ 256 = 2 * 2 ^ 255" by (simp only: power_Suc [symmetric]) simp
  then show ?thesis by simp
qed

lemma truediv2_secp256k1_n: "truediv2 secp256k1_n = Inr (2 ^ 255)"
  unfolding truediv2_def round53_secp256k1_n using no_overflow_256 half_of_2_256
  by (simp only: if_False)

lemma secp256k1_numbers:
  "0 < secp256k1_Gx" "secp256k1_Gx < secp256k1_n" "secp256k1_n < secp256k1_p"
  "secp256k1_Gx < (secp256k1_n + 1) div 2" "(secp256k1_n + 1) div 2 < secp256k1_n"
  "(secp256k1_n + 1) div 2 \<le> 2 ^ 255" "secp256k1_n < 2 * ((secp256k1_n + 1) div 2)"
  unfolding secp256k1_n_def secp256k1_Gx_def secp256k1_p_def by simp_all

text \<open>
  C5. The test \<^verbatim>\<open>s > ec.n / 2\<close> of \<^verbatim>\<open>_sign\<close> compares \<open>s\<close> with a float. For the order
  \<open>n\<close> of secp256k1 the float nearest to \<open>n / 2\<close> is \<open>2\<^sup>2\<^sup>5\<^sup>5\<close>, which is above \<open>n / 2\<close>, so
  an \<open>s\<close> in between is returned as it is. With the nonce \<open>k = 1\<close> (\<open>R = G\<close>, \<open>r = G\<^sub>x\<close>),
  the private key \<open>1\<close> and the challenge \<open>(n + 1) div 2 - G\<^sub>x\<close>, \<^verbatim>\<open>_sign\<close> returns
  \<open>s = (n + 1) div 2\<close>, which exceeds \<open>n / 2\<close>. This holds for every curve object with the
  constants of secp256k1 whose collaborators compute \<open>[1]G = G\<close> and the inverse of \<open>1\<close>.
\<close>

theorem sign_high_s:
  assumes "ec_n ec = secp256k1_n" and "ec_p ec = secp256k1_p"
    and "mult_jac ec 1 (GJ ec) = Inr (secp256k1_Gx, secp256k1_Gy, 1)"
    and "mod_inv ec 1 secp256k1_p = Inr 1" and "mod_inv ec 1 secp256k1_n = Inr 1"
  shows "priv_sign ((secp256k1_n + 1) div 2 - secp256k1_Gx) 1 1 ec
           = Inr (secp256k1_Gx, (secp256k1_n + 1) div 2)
         \<and> secp256k1_n < 2 * ((secp256k1_n + 1) div 2)"
proof -
  have 1: "secp256k1_Gx mod secp256k1_p = secp256k1_Gx"
    using secp256k1_numbers by simp
  have 2: "secp256k1_Gx mod secp256k1_n = secp256k1_Gx"
    using secp256k1_numbers by simp
  have 3: "((secp256k1_n + 1) div 2) mod secp256k1_n = (secp256k1_n + 1) div 2"
    using secp256k1_numbers by simp
  have 4: "(secp256k1_n + 1) div 2 \<noteq> 0" "secp256k1_Gx \<noteq> 0"
    using secp256k1_numbers by auto
  have 5: "\<not> ((2::rat) ^ 255 < of_int ((secp256k1_n + 1) div 2))"
  proof -
    have "(of_int ((secp256k1_n + 1) div 2) :: rat) \<le> of_int (2 ^ 255)"
      using secp256k1_numbers(6) by (simp only: of_int_le_iff)
    then show ?thesis by simp
  qed
  show ?thesis
    using secp256k1_numbers(7) 4 5
    by (simp add: priv_sign_def assms 1 2 3 truediv2_secp256k1_n Let_def)
qed

lemma euclid_inv_1: "1 < m \<Longrightarrow> euclid_inv 1 m = Inr 1"
proof -
  assume m: "1 < m"
  have 1: "bezw (nat m) (Suc 0) = (0, 1)"
    by (subst bezw_non_0) simp_all
  have 2: "Suc 0 mod nat m = Suc 0" "Suc 0 div nat m = 0"
    using m by simp_all
  have "bezw (Suc 0) (nat m) = (1, 0)"
    using m by (subst bezw_non_0) (simp_all add: 1 2)
  then show ?thesis using m by (simp add: euclid_inv_def)
qed

theorem sign_high_s_witness:
  "ec_n secp256k1_stub = secp256k1_n \<and> ec_p secp256k1_stub = secp256k1_p \<and>
   mult_jac secp256k1_stub 1 (GJ secp256k1_stub) = Inr (secp256k1_Gx, secp256k1_Gy, 1) \<and>
   mod_inv secp256k1_stub 1 secp256k1_p = Inr 1 \<and>
   mod_inv secp256k1_stub 1 secp256k1_n = Inr 1 \<and>
   priv_sign ((secp256k1_n + 1) div 2 - secp256k1_Gx) 1 1 secp256k1_stub
     = Inr (secp256k1_Gx, (secp256k1_n + 1) div 2) \<and>
   secp256k1_n < 2 * ((secp256k1_n + 1) div 2)"
proof -
  have a: "ec_n secp256k1_stub = secp256k1_n" "ec_p secp256k1_stub = secp256k1_p"
    "mult_jac secp256k1_stub 1 (GJ secp256k1_stub) = Inr (secp256k1_Gx, secp256k1_Gy, 1)"
    "mod_inv secp256k1_stub = euclid_inv"
    by (simp_all add: secp256k1_stub_def ec13_consts)
  have b: "mod_inv secp256k1_stub 1 secp256k1_p = Inr 1"
    "mod_inv secp256k1_stub 1 secp256k1_n = Inr 1"
    using secp256k1_numbers by (simp_all add: a euclid_inv_1)
  show ?thesis
    using sign_high_s [OF a(1) a(2) a(3) b] a b by simp
qed

end
